theory Spec2Isabelle
  imports Complex_Main
begin

section \<open>Paths, strings and the file system\<close>

text \<open>
  A \<open>pathlib.Path\<close> to a file is its directory and its final component. Directories
  (\<open>settings.FAILED_DIR\<close> and friends) are plain strings.
\<close>

datatype path = Path (parent: string) (name: string)

text \<open>\<open>str.rfind\<close> for a single character: the last index holding it.\<close>

definition rfind :: "char \<Rightarrow> string \<Rightarrow> nat option" where
  "rfind c s =
     (let ks = filter (\<lambda>k. s ! k = c) [0..<length s]
      in if ks = [] then None else Some (last ks))"

text \<open>
  \<open>Path.stem\<close>: the final component without its last suffix; a leading or a trailing
  dot is not a suffix separator (\<open>0 < i < len(name) - 1\<close>).
\<close>

definition stem :: "string \<Rightarrow> string" where
  "stem n =
     (case rfind CHR ''.'' n of
        None \<Rightarrow> n
      | Some i \<Rightarrow> if 0 < i \<and> i + 1 < length n then take i n else n)"

definition endswith :: "string \<Rightarrow> string \<Rightarrow> bool" where
  "endswith s suf \<longleftrightarrow> length suf \<le> length s \<and> drop (length s - length suf) s = suf"

text \<open>\<open>FileHandler.extract_document_id\<close>: the stem, less a trailing \<open>_ocred\<close>.\<close>

definition extract_document_id :: "string \<Rightarrow> string" where
  "extract_document_id pdf_filename =
     (let filename = stem pdf_filename
      in if endswith filename ''_ocred'' then take (length filename - 6) filename
         else filename)"

text \<open>
  The file system: the files that exist (with their content), and the directories in
  which the operating system refuses to create, rename or unlink entries. An operation
  that raises returns \<open>Inl\<close> with the exception's text.
\<close>

record filesystem =
  files :: "path \<rightharpoonup> string"
  denied :: "string set"

definition exists :: "path \<Rightarrow> filesystem \<Rightarrow> bool" where
  "exists p fs \<longleftrightarrow> files fs p \<noteq> None"

text \<open>\<open>destination_dir.mkdir(parents=True, exist_ok=True)\<close>\<close>

definition mkdir :: "string \<Rightarrow> filesystem \<Rightarrow> string + filesystem" where
  "mkdir d fs = (if d \<in> denied fs then Inl ''PermissionError'' else Inr fs)"

text \<open>\<open>shutil.move(src, dst)\<close>: the file leaves \<open>src\<close> and appears, unchanged, at \<open>dst\<close>.\<close>

definition shutil_move :: "path \<Rightarrow> path \<Rightarrow> filesystem \<Rightarrow> string + filesystem" where
  "shutil_move src dst fs =
     (case files fs src of
        None \<Rightarrow> Inl ''FileNotFoundError''
      | Some c \<Rightarrow>
          if parent src \<in> denied fs \<or> parent dst \<in> denied fs then Inl ''PermissionError''
          else Inr (fs\<lparr>files := (files fs)(src := None, dst \<mapsto> c)\<rparr>))"

text \<open>\<open>os.remove(p)\<close> and \<open>Path.unlink()\<close>\<close>

definition os_remove :: "path \<Rightarrow> filesystem \<Rightarrow> string + filesystem" where
  "os_remove p fs =
     (case files fs p of
        None \<Rightarrow> Inl ''FileNotFoundError''
      | Some c \<Rightarrow>
          if parent p \<in> denied fs then Inl ''PermissionError''
          else Inr (fs\<lparr>files := (files fs)(p := None)\<rparr>))"

text \<open>Writing a new file (\<open>image.save\<close>, \<open>cv2.imwrite\<close>).\<close>

definition write_file :: "path \<Rightarrow> string \<Rightarrow> filesystem \<Rightarrow> string + filesystem" where
  "write_file p c fs =
     (if parent p \<in> denied fs then Inl ''PermissionError''
      else Inr (fs\<lparr>files := (files fs)(p \<mapsto> c)\<rparr>))"

text \<open>
  \<open>FileHandler.move_file\<close>: the whole body is inside \<open>try\<close>, and \<open>except Exception\<close>
  logs and returns \<open>None\<close>.
\<close>

definition move_file :: "path \<Rightarrow> string \<Rightarrow> string option \<Rightarrow> filesystem \<Rightarrow> path option \<times> filesystem" where
  "move_file source destination_dir filename fs =
     (case mkdir destination_dir fs of
        Inl e \<Rightarrow> (None, fs)
      | Inr fs1 \<Rightarrow>
          (let dest_filename = (case filename of
                                  None \<Rightarrow> name source
                                | Some f \<Rightarrow> if f \<noteq> [] then f else name source);
               dest_path = Path destination_dir dest_filename
           in (case shutil_move source dest_path fs1 of
                 Inl e \<Rightarrow> (None, fs1)
               | Inr fs2 \<Rightarrow> (Some dest_path, fs2))))"

section \<open>Values, rows and the database\<close>

text \<open>
  Values of the dictionaries that come back from extraction. A Python \<open>float\<close> is
  modelled by the rational it denotes. \<open>d.get(k)\<close> is \<open>d k\<close>: a missing key and a
  stored \<open>None\<close> both read as \<open>None\<close>.
\<close>

datatype pyval = PyStr string | PyFloat rat | PyInt int

type_synonym pydict = "string \<rightharpoonup> pyval"

text \<open>Decimal rendering of integers, as \<open>str(int)\<close> prints them.\<close>

fun str_nat :: "nat \<Rightarrow> string" where
  "str_nat n = (if n < 10 then [''0123456789'' ! n]
                else str_nat (n div 10) @ [''0123456789'' ! (n mod 10)])"

declare str_nat.simps [simp del]

definition str_int :: "int \<Rightarrow> string" where
  "str_int i = (if i < 0 then CHR ''-'' # str_nat (nat (- i)) else str_nat (nat i))"

text \<open>\<open>int(x)\<close> truncates towards zero.\<close>

definition py_int :: "rat \<Rightarrow> int" where
  "py_int x = (if 0 \<le> x then \<lfloor>x\<rfloor> else \<lceil>x\<rceil>)"

text \<open>\<open>f"{x:.2f}"\<close>: two decimals, on the rational value.\<close>

definition fmt_2f :: "rat \<Rightarrow> string" where
  "fmt_2f x =
     (let q = round (\<bar>x\<bar> * 100);
          frac = nat (q mod 100)
      in (if x < 0 \<and> q \<noteq> 0 then [CHR ''-''] else []) @ str_nat (nat (q div 100))
           @ [CHR ''.'', ''0123456789'' ! (frac div 10), ''0123456789'' ! (frac mod 10)])"

text \<open>
  The formatting block repeated for \<open>registration_fee\<close>, \<open>new_ocr_reg_fee\<close> and
  \<open>guidance_value\<close>: a float that equals its integer part prints as that integer, any other
  float with two decimals, and a value that is not a float through \<open>str\<close>.
\<close>

definition format_fee :: "pyval \<Rightarrow> string" where
  "format_fee v =
     (case v of
        PyFloat x \<Rightarrow> (if x = of_int (py_int x) then str_int (py_int x) else fmt_2f x)
      | PyInt i \<Rightarrow> str_int i
      | PyStr s \<Rightarrow> s)"

text \<open>\<open>ValidationService.calculate_guidance_value\<close>: \<open>round(float(fee) * 100, 2)\<close>.\<close>

definition calculate_guidance_value :: "rat \<Rightarrow> rat" where
  "calculate_guidance_value registration_fee =
     of_int (round (registration_fee * 100 * 100)) / 100"

record DocumentDetail =
  doc_document_id :: string
  transaction_date :: "pyval option"
  registration_office :: "pyval option"
  updated_at :: "nat option"

record PropertyDetail =
  prop_document_id :: string
  schedule_b_area :: "pyval option"
  schedule_c_property_name :: "pyval option"
  schedule_c_property_address :: "pyval option"
  schedule_c_property_area :: "pyval option"
  paid_in_cash_mode :: "pyval option"
  prop_pincode :: "pyval option"
  prop_state :: "pyval option"
  sale_consideration :: "pyval option"
  stamp_duty_fee :: "pyval option"
  prop_registration_fee :: "string option"
  prop_new_ocr_reg_fee :: "string option"
  guidance_value :: "string option"

record BuyerDetail =
  b_document_id :: string
  b_name :: "pyval option"
  b_gender :: "pyval option"
  b_aadhaar_number :: "pyval option"
  b_pan_card_number :: "pyval option"
  b_address :: "pyval option"
  b_pincode :: "pyval option"
  b_state :: "pyval option"
  b_phone_number :: "pyval option"
  b_secondary_phone_number :: "pyval option"
  b_email :: "pyval option"

record SellerDetail =
  s_document_id :: string
  s_name :: "pyval option"
  s_gender :: "pyval option"
  s_aadhaar_number :: "pyval option"
  s_pan_card_number :: "pyval option"
  s_address :: "pyval option"
  s_pincode :: "pyval option"
  s_state :: "pyval option"
  s_phone_number :: "pyval option"
  s_secondary_phone_number :: "pyval option"
  s_email :: "pyval option"
  s_property_share :: "pyval option"

text \<open>
  The four tables, in insertion order. The surrogate \<open>id\<close> columns and \<open>created_at\<close> are
  not modelled.
\<close>

record database =
  documents :: "DocumentDetail list"
  properties :: "PropertyDetail list"
  buyers :: "BuyerDetail list"
  sellers :: "SellerDetail list"

text \<open>The dictionary handed to \<open>_save_to_database\<close>, with its four keys.\<close>

record data =
  document_details :: pydict
  property_details :: pydict
  buyer_details :: "pydict list"
  seller_details :: "pydict list"

text \<open>
  \<open>query(...).filter(...).first()\<close> returns the first matching row, and assignments to
  its attributes change that row in place.
\<close>

fun update_first :: "('a \<Rightarrow> bool) \<Rightarrow> ('a \<Rightarrow> 'a) \<Rightarrow> 'a list \<Rightarrow> 'a list" where
  "update_first P f [] = []"
| "update_first P f (x # xs) = (if P x then f x # xs else x # update_first P f xs)"

definition new_PropertyDetail :: "string \<Rightarrow> PropertyDetail" where
  "new_PropertyDetail document_id =
     \<lparr>prop_document_id = document_id, schedule_b_area = None,
      schedule_c_property_name = None, schedule_c_property_address = None,
      schedule_c_property_area = None, paid_in_cash_mode = None, prop_pincode = None,
      prop_state = None, sale_consideration = None, stamp_duty_fee = None,
      prop_registration_fee = None, prop_new_ocr_reg_fee = None, guidance_value = None\<rparr>"

definition assign_property :: "pydict \<Rightarrow> pyval option \<Rightarrow> PropertyDetail \<Rightarrow> PropertyDetail" where
  "assign_property prop_data new_ocr_reg_fee prop =
     prop\<lparr>schedule_b_area := prop_data ''schedule_b_area'',
          schedule_c_property_name := prop_data ''schedule_c_property_name'',
          schedule_c_property_address := prop_data ''schedule_c_property_address'',
          schedule_c_property_area := prop_data ''schedule_c_property_area'',
          paid_in_cash_mode := prop_data ''paid_in_cash_mode'',
          prop_pincode := prop_data ''pincode'',
          prop_state := prop_data ''state'',
          sale_consideration := prop_data ''sale_consideration'',
          stamp_duty_fee := prop_data ''stamp_duty_fee'',
          prop_registration_fee := map_option format_fee (prop_data ''registration_fee''),
          prop_new_ocr_reg_fee := map_option format_fee new_ocr_reg_fee,
          guidance_value := map_option format_fee (prop_data ''guidance_value'')\<rparr>"

definition new_BuyerDetail :: "string \<Rightarrow> pydict \<Rightarrow> BuyerDetail" where
  "new_BuyerDetail document_id buyer_data =
     \<lparr>b_document_id = document_id, b_name = buyer_data ''name'',
      b_gender = buyer_data ''gender'', b_aadhaar_number = buyer_data ''aadhaar_number'',
      b_pan_card_number = buyer_data ''pan_card_number'', b_address = buyer_data ''address'',
      b_pincode = buyer_data ''pincode'', b_state = buyer_data ''state'',
      b_phone_number = buyer_data ''phone_number'',
      b_secondary_phone_number = buyer_data ''secondary_phone_number'',
      b_email = buyer_data ''email''\<rparr>"

definition new_SellerDetail :: "string \<Rightarrow> pydict \<Rightarrow> SellerDetail" where
  "new_SellerDetail document_id seller_data =
     \<lparr>s_document_id = document_id, s_name = seller_data ''name'',
      s_gender = seller_data ''gender'', s_aadhaar_number = seller_data ''aadhaar_number'',
      s_pan_card_number = seller_data ''pan_card_number'', s_address = seller_data ''address'',
      s_pincode = seller_data ''pincode'', s_state = seller_data ''state'',
      s_phone_number = seller_data ''phone_number'',
      s_secondary_phone_number = seller_data ''secondary_phone_number'',
      s_email = seller_data ''email'', s_property_share = seller_data ''property_share''\<rparr>"

text \<open>
  \<open>PDFProcessorV2._save_to_database\<close>. \<open>session_error\<close> is the exception the database
  session raises, if it does: the \<open>except\<close> branch rolls back and re-raises, so the
  tables are as before. \<open>utcnow\<close> is the clock reading stored in \<open>updated_at\<close>.
\<close>

definition save_to_database ::
  "string option \<Rightarrow> nat \<Rightarrow> string \<Rightarrow> data \<Rightarrow> pyval option \<Rightarrow> database \<Rightarrow> string + database" where
  "save_to_database session_error utcnow document_id data new_ocr_reg_fee db =
     (case session_error of
        Some e \<Rightarrow> Inl e
      | None \<Rightarrow>
          (let doc_data = document_details data;
               docs = (case find (\<lambda>d. doc_document_id d = document_id) (documents db) of
                         None \<Rightarrow>
                           documents db @
                             [\<lparr>doc_document_id = document_id,
                               transaction_date = doc_data ''transaction_date'',
                               registration_office = doc_data ''registration_office'',
                               updated_at = None\<rparr>]
                       | Some doc \<Rightarrow>
                           update_first (\<lambda>d. doc_document_id d = document_id)
                             (\<lambda>d. d\<lparr>transaction_date := doc_data ''transaction_date'',
                                     registration_office := doc_data ''registration_office'',
                                     updated_at := Some utcnow\<rparr>)
                             (documents db));
               prop_data = property_details data;
               props = (case find (\<lambda>p. prop_document_id p = document_id) (properties db) of
                          None \<Rightarrow> properties db @ [new_PropertyDetail document_id]
                        | Some prop \<Rightarrow> properties db);
               props = update_first (\<lambda>p. prop_document_id p = document_id)
                         (assign_property prop_data new_ocr_reg_fee) props;
               kept_buyers = filter (\<lambda>b. b_document_id b \<noteq> document_id) (buyers db);
               kept_sellers = filter (\<lambda>s. s_document_id s \<noteq> document_id) (sellers db)
           in Inr \<lparr>documents = docs, properties = props,
                   buyers = kept_buyers @ map (new_BuyerDetail document_id) (buyer_details data),
                   sellers = kept_sellers @ map (new_SellerDetail document_id) (seller_details data)\<rparr>))"

section \<open>The two stage functions of \<open>PDFProcessorV2\<close>\<close>

datatype status = Success | Failed | Stopped

text \<open>
  The two exception classes the stage functions tell apart: \<open>ProcessingStoppedException\<close>
  (with its \<open>message\<close>) and every other \<open>Exception\<close> (with its \<open>str\<close>).
\<close>

datatype exn = ProcessingStoppedException string | Exception string

record Stage1Result =
  pdf_path :: path
  document_id :: string
  registration_fee :: "rat option"
  new_ocr_reg_fee :: "rat option"
  ocr_text :: string
  status :: status
  error :: "string option"

text \<open>
  The result dictionary of stage 2, which the orchestrator also builds for items that end
  in stage 1. \<open>table_detected = None\<close> is a dictionary without that key.
\<close>

record result =
  r_document_id :: string
  r_status :: status
  r_registration_fee :: "rat option"
  llm_extracted :: bool
  saved_to_db :: bool
  table_detected :: "bool option"
  r_error :: "string option"

text \<open>
  The processor object: whether \<open>self.batch_processor\<close> is set, the collaborators it
  calls (each returns \<open>Inl\<close> with the text of the exception it raises), and the settings
  it reads.
\<close>

record processor =
  batch_processor :: bool
  reg_fee_extract :: "path \<Rightarrow> string + rat option"
  get_full_text :: "path \<Rightarrow> string + string"
  extract_from_ocr_text :: "string \<Rightarrow> string + rat option"
  ENABLE_OCR_REG_FEE_EXTRACTION :: bool
  extract_structured_data :: "string \<Rightarrow> string + data option"
  validate_and_clean_data :: "data \<Rightarrow> string + data"
  session_error :: "string \<Rightarrow> string option"
  utcnow :: nat
  pdf_to_images :: "path \<Rightarrow> string + string list"
  detect_and_crop :: "string \<Rightarrow> string + string option"
  PROCESSED_DIR :: string
  FAILED_DIR :: string
  LEFT_OVER_REG_FEE_DIR :: string

text \<open>
  \<open>if self.batch_processor and not self.batch_processor.is_running\<close>, at the \<open>k\<close>-th stop
  check of one call; \<open>is_running k\<close> is the value of the flag read there.
\<close>

definition stop_check :: "processor \<Rightarrow> (nat \<Rightarrow> bool) \<Rightarrow> nat \<Rightarrow> bool" where
  "stop_check P is_running k \<longleftrightarrow> batch_processor P \<and> \<not> is_running k"

text \<open>Truth value of an \<open>Optional[float]\<close>: neither \<open>None\<close> nor zero.\<close>

definition truthy :: "rat option \<Rightarrow> bool" where
  "truthy v \<longleftrightarrow> v \<noteq> None \<and> v \<noteq> Some 0"

text \<open>The \<open>try\<close> block of \<open>process_stage1_ocr\<close>, up to its \<open>return\<close>.\<close>

definition stage1_body :: "processor \<Rightarrow> (nat \<Rightarrow> bool) \<Rightarrow> path \<Rightarrow> string \<Rightarrow> exn + Stage1Result" where
  "stage1_body P is_running pdf document_id' =
     (if stop_check P is_running 0
      then Inl (ProcessingStoppedException ''Stopped before Stage 1'')
      else (case reg_fee_extract P pdf of
         Inl e \<Rightarrow> Inl (Exception e)
       | Inr registration_fee' \<Rightarrow>
           (if stop_check P is_running 1
            then Inl (ProcessingStoppedException ''Stopped before OCR'')
            else (case get_full_text P pdf of
               Inl e \<Rightarrow> Inl (Exception e)
             | Inr full_ocr_text \<Rightarrow>
                 (if full_ocr_text = [] \<or> length full_ocr_text < 100
                  then Inl (Exception ''OCR returned insufficient text'')
                  else if stop_check P is_running 2
                  then Inl (ProcessingStoppedException ''Stopped before OCR fee extraction'')
                  else (case (if ENABLE_OCR_REG_FEE_EXTRACTION P
                              then extract_from_ocr_text P full_ocr_text else Inr None) of
                     Inl e \<Rightarrow> Inl (Exception e)
                   | Inr new_ocr_reg_fee' \<Rightarrow>
                       Inr \<lparr>pdf_path = pdf, document_id = document_id',
                            registration_fee = registration_fee',
                            new_ocr_reg_fee = new_ocr_reg_fee',
                            ocr_text = full_ocr_text, status = Success,
                            error = None\<rparr>))))))"

text \<open>\<open>PDFProcessorV2.process_stage1_ocr\<close>, with its two \<open>except\<close> branches.\<close>

definition process_stage1_ocr :: "processor \<Rightarrow> (nat \<Rightarrow> bool) \<Rightarrow> path \<Rightarrow> Stage1Result" where
  "process_stage1_ocr P is_running pdf =
     (let document_id' = extract_document_id (name pdf)
      in (case stage1_body P is_running pdf document_id' of
            Inr r \<Rightarrow> r
          | Inl (ProcessingStoppedException message) \<Rightarrow>
              \<lparr>pdf_path = pdf, document_id = document_id', registration_fee = None,
               new_ocr_reg_fee = None, ocr_text = [], status = Stopped,
               error = Some message\<rparr>
          | Inl (Exception e) \<Rightarrow>
              \<lparr>pdf_path = pdf, document_id = document_id', registration_fee = None,
               new_ocr_reg_fee = None, ocr_text = [], status = Failed,
               error = Some e\<rparr>))"

text \<open>
  The page loop of \<open>_detect_and_save_table\<close>: save the page as a temporary image, run the
  detector (which writes the cropped table when it finds one), unlink the temporary image,
  and stop at the first page with a table.
\<close>

fun detect_pages ::
  "processor \<Rightarrow> string \<Rightarrow> nat \<Rightarrow> string list \<Rightarrow> filesystem \<Rightarrow> (string + bool) \<times> filesystem" where
  "detect_pages P doc page_num [] fs = (Inr False, fs)"
| "detect_pages P doc page_num (page_image # images) fs =
     (let temp_image_path =
            Path (LEFT_OVER_REG_FEE_DIR P) (''temp_'' @ doc @ ''_page_'' @ str_nat page_num @ ''.png'')
      in (case write_file temp_image_path page_image fs of
            Inl e \<Rightarrow> (Inl e, fs)
          | Inr fs1 \<Rightarrow>
              (let output_image_path = Path (LEFT_OVER_REG_FEE_DIR P) (doc @ ''_table.png'')
               in (case detect_and_crop P page_image of
                     Inl e \<Rightarrow> (Inl e, fs1)
                   | Inr cropped_table \<Rightarrow>
                       (let fs2 = (case cropped_table of
                                     None \<Rightarrow> fs1
                                   | Some crop \<Rightarrow>
                                       (case write_file output_image_path crop fs1 of
                                          Inl e \<Rightarrow> fs1 | Inr f \<Rightarrow> f))
                        in (case (if exists temp_image_path fs2
                                  then os_remove temp_image_path fs2 else Inr fs2) of
                              Inl e \<Rightarrow> (Inl e, fs2)
                            | Inr fs3 \<Rightarrow>
                                (if cropped_table \<noteq> None then (Inr True, fs3)
                                 else detect_pages P doc (page_num + 1) images fs3)))))))"

text \<open>\<open>PDFProcessorV2._detect_and_save_table\<close>: any exception gives \<open>False\<close>.\<close>

definition detect_and_save_table :: "processor \<Rightarrow> path \<Rightarrow> string \<Rightarrow> filesystem \<Rightarrow> bool \<times> filesystem" where
  "detect_and_save_table P pdf doc fs =
     (case pdf_to_images P pdf of
        Inl e \<Rightarrow> (False, fs)
      | Inr images \<Rightarrow>
          (case detect_pages P doc 1 images fs of
             (Inl e, fs') \<Rightarrow> (False, fs')
           | (Inr found, fs') \<Rightarrow> (found, fs')))"

text \<open>
  The \<open>try\<close> block of \<open>process_stage2_llm\<close>. It returns the exception that left the block
  (if one did) together with the result dictionary, the database and the file system as
  they are at that point.
\<close>

definition stage2_body ::
  "processor \<Rightarrow> (nat \<Rightarrow> bool) \<Rightarrow> Stage1Result \<Rightarrow> result \<Rightarrow> database \<Rightarrow> filesystem
     \<Rightarrow> exn option \<times> result \<times> database \<times> filesystem" where
  "stage2_body P is_running stage1_result res db fs =
     (if stop_check P is_running 0
      then (Some (ProcessingStoppedException ''Stopped before LLM''), res, db, fs)
      else (case extract_structured_data P (ocr_text stage1_result) of
         Inl e \<Rightarrow> (Some (Exception e), res, db, fs)
       | Inr None \<Rightarrow> (Some (Exception ''LLM failed to extract structured data''), res, db, fs)
       | Inr (Some extracted_data) \<Rightarrow>
           (let res1 = res\<lparr>llm_extracted := True\<rparr>
            in if stop_check P is_running 1
               then (Some (ProcessingStoppedException ''Stopped before validation''), res1, db, fs)
               else (case validate_and_clean_data P extracted_data of
                  Inl e \<Rightarrow> (Some (Exception e), res1, db, fs)
                | Inr cleaned \<Rightarrow>
                    (let cleaned_data =
                           (case registration_fee stage1_result of
                              Some fee \<Rightarrow>
                                (if fee \<noteq> 0
                                 then cleaned\<lparr>property_details :=
                                        (property_details cleaned)
                                          (''registration_fee'' \<mapsto> PyFloat fee,
                                           ''guidance_value'' \<mapsto>
                                              PyFloat (calculate_guidance_value fee))\<rparr>
                                 else cleaned)
                            | None \<Rightarrow> cleaned)
                     in if stop_check P is_running 2
                        then (Some (ProcessingStoppedException ''Stopped before DB save''),
                              res1, db, fs)
                        else (case save_to_database
                                     (session_error P (document_id stage1_result)) (utcnow P)
                                     (document_id stage1_result) cleaned_data
                                     (map_option PyFloat (new_ocr_reg_fee stage1_result)) db of
                           Inl db_error \<Rightarrow>
                             (Some (Exception (''Database save failed: '' @ db_error)),
                              res1, db, fs)
                         | Inr db' \<Rightarrow>
                             (let res2 = res1\<lparr>saved_to_db := True\<rparr>
                              in if stop_check P is_running 3
                                 then (Some (ProcessingStoppedException ''Stopped before YOLO''),
                                       res2, db', fs)
                                 else
                                   (let (res3, fs1) =
                                          (if \<not> truthy (registration_fee stage1_result)
                                           then (case detect_and_save_table P
                                                        (pdf_path stage1_result)
                                                        (document_id stage1_result) fs of
                                                   (found, fs') \<Rightarrow>
                                                     (res2\<lparr>table_detected := Some found\<rparr>, fs'))
                                           else (res2, fs));
                                        res4 = res3\<lparr>r_status := Success\<rparr>
                                    in (None, res4, db',
                                        snd (move_file (pdf_path stage1_result)
                                               (PROCESSED_DIR P) None fs1))))))))))"

text \<open>
  \<open>PDFProcessorV2.process_stage2_llm\<close>: a stop leaves the file where it is, any other
  exception moves it to \<open>FAILED_DIR\<close> if it still exists.
\<close>

definition process_stage2_llm ::
  "processor \<Rightarrow> (nat \<Rightarrow> bool) \<Rightarrow> Stage1Result \<Rightarrow> database \<Rightarrow> filesystem
     \<Rightarrow> result \<times> database \<times> filesystem" where
  "process_stage2_llm P is_running stage1_result db fs =
     (let res0 = \<lparr>r_document_id = document_id stage1_result, r_status = Failed,
                  r_registration_fee = registration_fee stage1_result,
                  llm_extracted = False, saved_to_db = False,
                  table_detected = Some False, r_error = None\<rparr>
      in (case stage2_body P is_running stage1_result res0 db fs of
            (None, res, db', fs') \<Rightarrow> (res, db', fs')
          | (Some (ProcessingStoppedException message), res, db', fs') \<Rightarrow>
              (res\<lparr>r_status := Stopped, r_error := Some message\<rparr>, db', fs')
          | (Some (Exception e), res, db', fs') \<Rightarrow>
              (res\<lparr>r_error := Some e, r_status := Failed\<rparr>, db',
               if exists (pdf_path stage1_result) fs'
               then snd (move_file (pdf_path stage1_result) (FAILED_DIR P) None fs')
               else fs')))"

section \<open>The pipeline orchestrator \<open>PipelineBatchProcessor\<close>\<close>

text \<open>What \<open>future.result()\<close> gives: the value the task returned, or the exception it raised.\<close>

datatype 'a outcome = Returned 'a | Raised string

text \<open>The \<open>stats\<close> dictionary.\<close>

record stats_dict =
  total :: int
  processed :: int
  successful :: int
  failed :: int
  stopped :: int
  ocr_active :: int
  llm_active :: int
  in_queue :: int
  current_file :: "string option"

text \<open>Where the thread that runs \<open>process_batch\<close> is.\<close>

datatype main_pc = InStage1Loop | InStage2Loop | LeavingPools | Finished

text \<open>
  The state of one run. The two executors are their work queue (submitted, not yet taken
  by a worker), the tasks their workers are executing (each with the value the flag had
  when it was taken), and the completed futures that \<open>as_completed\<close> has not yet yielded.
  \<open>stage2_queue\<close> is the \<open>Queue(maxsize=settings.STAGE2_QUEUE_SIZE)\<close> that
  \<open>process_batch\<close> allocates.
\<close>

record world =
  max_ocr_workers :: nat
  max_llm_workers :: nat
  STAGE2_QUEUE_SIZE :: nat
  is_running :: bool
  stats :: stats_dict
  results :: "result list"
  stage2_queue :: "Stage1Result list"
  ocr_waiting :: "path list"
  ocr_working :: "(path \<times> bool) list"
  stage1_done :: "(path \<times> Stage1Result outcome) list"
  llm_waiting :: "Stage1Result list"
  llm_working :: "(Stage1Result \<times> bool) list"
  stage2_done :: "(Stage1Result \<times> result outcome) list"
  main_at :: main_pc
  store :: database
  disk :: filesystem

text \<open>
  The head of \<open>process_batch\<close>: the flag is set, the counters are reset in one
  \<open>update_stats\<close>, the queue is allocated and every file is submitted to the OCR pool.
\<close>

definition start :: "nat \<Rightarrow> nat \<Rightarrow> nat \<Rightarrow> path list \<Rightarrow> database \<Rightarrow> filesystem \<Rightarrow> world" where
  "start ocr_workers llm_workers queue_size pdf_files db0 fs0 =
     \<lparr>max_ocr_workers = ocr_workers, max_llm_workers = llm_workers,
      STAGE2_QUEUE_SIZE = queue_size, is_running = True,
      stats = \<lparr>total = int (length pdf_files), processed = 0, successful = 0, failed = 0,
               stopped = 0, ocr_active = 0, llm_active = 0, in_queue = 0,
               current_file = None\<rparr>,
      results = [], stage2_queue = [], ocr_waiting = pdf_files, ocr_working = [],
      stage1_done = [], llm_waiting = [], llm_working = [], stage2_done = [],
      main_at = InStage1Loop, store = db0, disk = fs0\<rparr>"

text \<open>
  What a stage function sees of the flag during one call: \<open>None\<close> when every stop check
  reads it set, \<open>Some n\<close> when the first \<open>n\<close> checks read it set and the later ones
  cleared (the flag is only ever cleared during a run).
\<close>

definition flag_seen :: "nat option \<Rightarrow> nat \<Rightarrow> bool" where
  "flag_seen seen k = (case seen of None \<Rightarrow> True | Some n \<Rightarrow> k < n)"

text \<open>
  A view of the flag is possible for a task that was taken when the flag was
  \<open>at_start\<close> and finishes when it is \<open>at_end\<close>.
\<close>

definition possible_view :: "bool \<Rightarrow> bool \<Rightarrow> nat option \<Rightarrow> bool" where
  "possible_view at_start at_end seen \<longleftrightarrow>
     (at_end \<longrightarrow> seen = None) \<and> (\<not> at_start \<longrightarrow> seen = Some 0)"

text \<open>
  \<open>_stage1_ocr\<close> and \<open>_stage2_llm\<close> between their two \<open>update_stats\<close> calls.
  \<open>db_context_error\<close> is the exception \<open>get_db_context()\<close> raises, if it does.
\<close>

definition stage1_ocr ::
  "processor \<Rightarrow> string option \<Rightarrow> (nat \<Rightarrow> bool) \<Rightarrow> path \<Rightarrow> Stage1Result outcome" where
  "stage1_ocr P db_context_error flag pdf =
     (case db_context_error of
        Some e \<Rightarrow> Raised e
      | None \<Rightarrow> Returned (process_stage1_ocr P flag pdf))"

definition stage2_llm ::
  "processor \<Rightarrow> string option \<Rightarrow> (nat \<Rightarrow> bool) \<Rightarrow> Stage1Result \<Rightarrow> database \<Rightarrow> filesystem
     \<Rightarrow> result outcome \<times> database \<times> filesystem" where
  "stage2_llm P db_context_error flag stage1_result db fs =
     (case db_context_error of
        Some e \<Rightarrow> (Raised e, db, fs)
      | None \<Rightarrow>
          (case process_stage2_llm P flag stage1_result db fs of
             (res, db', fs') \<Rightarrow> (Returned res, db', fs')))"

text \<open>\<open>_update_completion_stats\<close> (no progress callback is passed).\<close>

definition update_completion_stats :: "result \<Rightarrow> stats_dict \<Rightarrow> stats_dict" where
  "update_completion_stats res st =
     st\<lparr>processed := processed st + 1,
        successful := successful st + (if r_status res = Success then 1 else 0),
        failed := failed st + (if r_status res = Failed then 1 else 0),
        stopped := stopped st + (if r_status res = Stopped then 1 else 0)\<rparr>"

definition record_result :: "result \<Rightarrow> world \<Rightarrow> world" where
  "record_result res w =
     w\<lparr>results := results w @ [res], stats := update_completion_stats res (stats w)\<rparr>"

text \<open>
  One iteration of \<open>for future in as_completed(stage1_futures)\<close>, for a future whose
  task is done.
\<close>

definition main_handles_stage1 :: "path \<Rightarrow> Stage1Result outcome \<Rightarrow> world \<Rightarrow> world" where
  "main_handles_stage1 pdf out w =
     (if \<not> is_running w then w\<lparr>main_at := InStage2Loop\<rparr>
      else (case out of
         Returned stage1_result \<Rightarrow>
           (if status stage1_result = Success
            then w\<lparr>stats := (stats w)\<lparr>in_queue := in_queue (stats w) + 1\<rparr>,
                   llm_waiting := llm_waiting w @ [stage1_result]\<rparr>
            else record_result
                   \<lparr>r_document_id = document_id stage1_result,
                    r_status = status stage1_result,
                    r_registration_fee = registration_fee stage1_result,
                    llm_extracted = False, saved_to_db = False, table_detected = None,
                    r_error = error stage1_result\<rparr> w)
       | Raised e \<Rightarrow>
           record_result
             \<lparr>r_document_id = stem (name pdf), r_status = Failed,
              r_registration_fee = None, llm_extracted = False, saved_to_db = False,
              table_detected = None, r_error = Some (''Stage 1 exception: '' @ e)\<rparr> w))"

text \<open>One iteration of \<open>for future in as_completed(stage2_futures)\<close>.\<close>

definition main_handles_stage2 :: "Stage1Result \<Rightarrow> result outcome \<Rightarrow> world \<Rightarrow> world" where
  "main_handles_stage2 stage1_result out w =
     (if \<not> is_running w then w\<lparr>main_at := LeavingPools\<rparr>
      else (case out of
         Returned stage2_result \<Rightarrow> record_result stage2_result w
       | Raised e \<Rightarrow>
           record_result
             \<lparr>r_document_id = document_id stage1_result, r_status = Failed,
              r_registration_fee = registration_fee stage1_result,
              llm_extracted = False, saved_to_db = False, table_detected = None,
              r_error = Some (''Stage 2 exception: '' @ e)\<rparr> w))"

text \<open>The atomic actions of the threads of one run.\<close>

datatype event =
    OcrWorkerStarts
  | OcrWorkerFinishes path "string option" "nat option"
  | MainHandlesStage1 path
  | MainLeavesStage1Loop
  | LlmWorkerStarts
  | LlmWorkerFinishes string "string option" "nat option"
  | MainHandlesStage2 string
  | MainLeavesStage2Loop
  | MainReturns
  | RequestStop

text \<open>
  \<open>step P ev w\<close> is the state after \<open>ev\<close>, or \<open>None\<close> when \<open>ev\<close> cannot happen in \<open>w\<close>.
  \<^item> A worker of a pool takes the oldest submitted task when fewer than \<open>max_workers\<close>
    tasks are executing; \<open>shutdown(wait=False)\<close> cancels nothing, so this goes on after
    a stop.
  \<^item> A worker finishes its task; the stage function ran with a possible view of the flag.
  \<^item> The main thread handles a completed future, or leaves a loop when no future is left,
    or returns once both pools are idle (the \<open>with\<close> block waits for them), clearing the
    flag in its \<open>finally\<close>.
  \<^item> \<open>stop()\<close> clears the flag.
\<close>

fun step :: "processor \<Rightarrow> event \<Rightarrow> world \<Rightarrow> world option" where
  "step P OcrWorkerStarts w =
     (case ocr_waiting w of
        [] \<Rightarrow> None
      | pdf # rest \<Rightarrow>
          if length (ocr_working w) < max_ocr_workers w
          then Some (w\<lparr>ocr_waiting := rest,
                       ocr_working := ocr_working w @ [(pdf, is_running w)],
                       stats := (stats w)\<lparr>ocr_active := ocr_active (stats w) + 1,
                                          current_file := Some (name pdf)\<rparr>\<rparr>)
          else None)"
| "step P (OcrWorkerFinishes pdf db_context_error seen) w =
     (case find (\<lambda>t. fst t = pdf) (ocr_working w) of
        None \<Rightarrow> None
      | Some t \<Rightarrow>
          if possible_view (snd t) (is_running w) seen
          then Some (w\<lparr>ocr_working := remove1 t (ocr_working w),
                       stage1_done := stage1_done w @
                         [(pdf, stage1_ocr P db_context_error (flag_seen seen) pdf)],
                       stats := (stats w)\<lparr>ocr_active := ocr_active (stats w) - 1\<rparr>\<rparr>)
          else None)"
| "step P (MainHandlesStage1 pdf) w =
     (if main_at w \<noteq> InStage1Loop then None
      else (case find (\<lambda>d. fst d = pdf) (stage1_done w) of
         None \<Rightarrow> None
       | Some d \<Rightarrow>
           Some (main_handles_stage1 pdf (snd d)
                   (w\<lparr>stage1_done := remove1 d (stage1_done w)\<rparr>))))"
| "step P MainLeavesStage1Loop w =
     (if main_at w = InStage1Loop \<and> ocr_waiting w = [] \<and> ocr_working w = []
         \<and> stage1_done w = []
      then Some (w\<lparr>main_at := InStage2Loop\<rparr>) else None)"
| "step P LlmWorkerStarts w =
     (case llm_waiting w of
        [] \<Rightarrow> None
      | stage1_result # rest \<Rightarrow>
          if length (llm_working w) < max_llm_workers w
          then Some (w\<lparr>llm_waiting := rest,
                       llm_working := llm_working w @ [(stage1_result, is_running w)],
                       stats := (stats w)\<lparr>llm_active := llm_active (stats w) + 1,
                                          in_queue := in_queue (stats w) - 1,
                                          current_file := Some (document_id stage1_result)\<rparr>\<rparr>)
          else None)"
| "step P (LlmWorkerFinishes doc db_context_error seen) w =
     (case find (\<lambda>t. document_id (fst t) = doc) (llm_working w) of
        None \<Rightarrow> None
      | Some t \<Rightarrow>
          if possible_view (snd t) (is_running w) seen
          then (case stage2_llm P db_context_error (flag_seen seen) (fst t) (store w) (disk w) of
                  (out, db', fs') \<Rightarrow>
                    Some (w\<lparr>llm_working := remove1 t (llm_working w),
                            stage2_done := stage2_done w @ [(fst t, out)],
                            stats := (stats w)\<lparr>llm_active := llm_active (stats w) - 1\<rparr>,
                            store := db', disk := fs'\<rparr>))
          else None)"
| "step P (MainHandlesStage2 doc) w =
     (if main_at w \<noteq> InStage2Loop then None
      else (case find (\<lambda>d. document_id (fst d) = doc) (stage2_done w) of
         None \<Rightarrow> None
       | Some d \<Rightarrow>
           Some (main_handles_stage2 (fst d) (snd d)
                   (w\<lparr>stage2_done := remove1 d (stage2_done w)\<rparr>))))"
| "step P MainLeavesStage2Loop w =
     (if main_at w = InStage2Loop \<and> llm_waiting w = [] \<and> llm_working w = []
         \<and> stage2_done w = []
      then Some (w\<lparr>main_at := LeavingPools\<rparr>) else None)"
| "step P MainReturns w =
     (if main_at w = LeavingPools \<and> ocr_waiting w = [] \<and> ocr_working w = []
         \<and> llm_waiting w = [] \<and> llm_working w = []
      then Some (w\<lparr>main_at := Finished, is_running := False\<rparr>) else None)"
| "step P RequestStop w = Some (w\<lparr>is_running := False\<rparr>)"

text \<open>A schedule is a list of events; it runs as long as each event can happen.\<close>

fun run :: "processor \<Rightarrow> event list \<Rightarrow> world \<Rightarrow> world option" where
  "run P [] w = Some w"
| "run P (ev # evs) w = (case step P ev w of None \<Rightarrow> None | Some w' \<Rightarrow> run P evs w')"

text \<open>Nothing is pending, in flight or queued.\<close>

definition drained :: "world \<Rightarrow> bool" where
  "drained w \<longleftrightarrow> ocr_waiting w = [] \<and> ocr_working w = [] \<and> stage1_done w = []
     \<and> llm_waiting w = [] \<and> llm_working w = [] \<and> stage2_done w = []"

section \<open>The correction pipeline \<open>VisionBatchProcessor\<close>\<close>












text \<open>The counters of the vision run, and the update the batch loop makes for one result.\<close>

record vision_stats =
  vs_total :: int
  vs_processed :: int
  vs_successful :: int
  vs_failed :: int
  vs_stopped :: int


section \<open>Concrete inputs\<close>

text \<open>
  A small installation on which the definitions are run: uploads in \<open>newly_uploaded\<close>, a
  text extractor that gives one hundred characters for every file but \<open>empty.pdf\<close>, for
  which it gives none, a fee extractor that finds no fee, a table detector that finds no
  page, and a model that extracts one buyer and one seller.
\<close>

definition ex_pdf :: "string \<Rightarrow> path" where
  "ex_pdf n = Path ''newly_uploaded'' n"

definition ex_data :: data where
  "ex_data =
     \<lparr>document_details = [''registration_office'' \<mapsto> PyStr ''Hubli''],
      property_details = [''state'' \<mapsto> PyStr ''Karnataka''],
      buyer_details = [Map.empty(''name'' \<mapsto> PyStr ''Asha'')],
      seller_details = [Map.empty(''name'' \<mapsto> PyStr ''Ravi'')]\<rparr>"


definition ex_processor :: processor where
  "ex_processor =
     \<lparr>batch_processor = True,
      reg_fee_extract = (\<lambda>p. Inr None),
      get_full_text = (\<lambda>p. if name p = ''empty.pdf'' then Inr [] else Inr (replicate 100 CHR ''x'')),
      extract_from_ocr_text = (\<lambda>t. Inr None),
      ENABLE_OCR_REG_FEE_EXTRACTION = False,
      extract_structured_data = (\<lambda>t. Inr (Some ex_data)),
      validate_and_clean_data = (\<lambda>d. Inr d),
      session_error = (\<lambda>i. None),
      utcnow = 7,
      pdf_to_images = (\<lambda>p. Inr []),
      detect_and_crop = (\<lambda>i. Inr None),
      PROCESSED_DIR = ''processed'',
      FAILED_DIR = ''failed'',
      LEFT_OVER_REG_FEE_DIR = ''left_over_reg_fee''\<rparr>"

definition ex_db :: database where
  "ex_db = \<lparr>documents = [], properties = [], buyers = [], sellers = []\<rparr>"

definition ex_fs :: filesystem where
  "ex_fs =
     \<lparr>files = [ex_pdf ''a.pdf'' \<mapsto> ''A'', ex_pdf ''b.pdf'' \<mapsto> ''B'', ex_pdf ''c.pdf'' \<mapsto> ''C'',
               ex_pdf ''d.pdf'' \<mapsto> ''D'', ex_pdf ''empty.pdf'' \<mapsto> ''E''],
      denied = {}\<rparr>"

text \<open>The stage-1 result of \<open>a.pdf\<close> on this installation.\<close>

definition ex_stage1 :: Stage1Result where
  "ex_stage1 =
     \<lparr>pdf_path = ex_pdf ''a.pdf'', document_id = ''a'', registration_fee = None,
      new_ocr_reg_fee = None, ocr_text = replicate 100 CHR ''x'', status = Success,
      error = None\<rparr>"

section \<open>Predicates on the state of a run\<close>

text \<open>
  The items between submission and recording, the recorded ones, and the properties of a
  run that its steps preserve.
\<close>

definition in_flight :: "world \<Rightarrow> int" where
  "in_flight w = int (length (ocr_waiting w)) + int (length (ocr_working w))
     + int (length (stage1_done w)) + int (length (llm_waiting w))
     + int (length (llm_working w)) + int (length (stage2_done w))"

definition counted :: "world \<Rightarrow> int" where
  "counted w = successful (stats w) + failed (stats w) + stopped (stats w)"

definition counters_ok :: "world \<Rightarrow> bool" where
  "counters_ok w \<longleftrightarrow> processed (stats w) = counted w \<and> processed (stats w) + in_flight w \<le> total (stats w)"

definition all_accounted :: "world \<Rightarrow> bool" where
  "all_accounted w \<longleftrightarrow> (is_running w \<or> main_at w = Finished)
     \<and> processed (stats w) = counted w \<and> processed (stats w) + in_flight w = total (stats w)"


definition no_stopped_recorded :: "world \<Rightarrow> bool" where
  "no_stopped_recorded w \<longleftrightarrow>
     stopped (stats w) = 0
   \<and> (\<forall>res \<in> set (results w). r_status res \<noteq> Stopped)
   \<and> (is_running w \<longrightarrow>
        (\<forall>d \<in> set (stage1_done w). \<forall>r. snd d = Returned r \<longrightarrow> status r \<noteq> Stopped)
      \<and> (\<forall>d \<in> set (stage2_done w). \<forall>res. snd d = Returned res \<longrightarrow> r_status res \<noteq> Stopped))"

section \<open>Concrete runs\<close>




text \<open>The status a completed future carries, when its task returned.\<close>

definition stage1_status :: "Stage1Result outcome \<Rightarrow> status option" where
  "stage1_status out = (case out of Returned r \<Rightarrow> Some (status r) | Raised e \<Rightarrow> None)"

definition stage2_status :: "result outcome \<Rightarrow> status option" where
  "stage2_status out = (case out of Returned r \<Rightarrow> Some (r_status r) | Raised e \<Rightarrow> None)"

text \<open>
  Schedules of runs on the installation above. In \<open>run_to_completion\<close> nobody asks for
  a stop. In \<open>stop_before_stage2\<close> the stop comes after stage 1 of the only item and
  before a worker takes it for stage 2. In \<open>stop_during_stage1\<close> it comes while
  stage 1 is executing, after its first stop check. In \<open>stop_then_exception\<close> it comes
  while stage 1 is executing, and
  \<open>get_db_context\<close> raises in that task. In \<open>stop_after_one_failure\<close> the first of two
  items fails in stage 1 and the stop comes while the second is in stage 2. In
  \<open>invalid_text_run\<close> the only item has no text. In \<open>four_ready_one_worker\<close> four items
  finish stage 1 while the single LLM worker is busy with the first.
\<close>

definition run_to_completion :: "event list" where
  "run_to_completion =
     [OcrWorkerStarts, OcrWorkerFinishes (ex_pdf ''a.pdf'') None None,
      MainHandlesStage1 (ex_pdf ''a.pdf''), MainLeavesStage1Loop, LlmWorkerStarts,
      LlmWorkerFinishes ''a'' None None, MainHandlesStage2 ''a'', MainLeavesStage2Loop,
      MainReturns]"

definition stop_before_stage2 :: "event list" where
  "stop_before_stage2 =
     [OcrWorkerStarts, OcrWorkerFinishes (ex_pdf ''a.pdf'') None None,
      MainHandlesStage1 (ex_pdf ''a.pdf''), MainLeavesStage1Loop, RequestStop,
      LlmWorkerStarts, LlmWorkerFinishes ''a'' None (Some 0), MainHandlesStage2 ''a'',
      MainReturns]"

definition stop_during_stage1 :: "event list" where
  "stop_during_stage1 =
     [OcrWorkerStarts, RequestStop, OcrWorkerFinishes (ex_pdf ''a.pdf'') None (Some 1),
      MainHandlesStage1 (ex_pdf ''a.pdf''), MainLeavesStage2Loop, MainReturns]"

definition stop_then_exception :: "event list" where
  "stop_then_exception =
     [OcrWorkerStarts, RequestStop,
      OcrWorkerFinishes (ex_pdf ''a.pdf'') (Some ''connection refused'') (Some 0),
      MainHandlesStage1 (ex_pdf ''a.pdf''), MainLeavesStage2Loop, MainReturns]"

definition stop_after_one_failure :: "event list" where
  "stop_after_one_failure =
     [OcrWorkerStarts, OcrWorkerStarts,
      OcrWorkerFinishes (ex_pdf ''empty.pdf'') None None,
      MainHandlesStage1 (ex_pdf ''empty.pdf''),
      OcrWorkerFinishes (ex_pdf ''a.pdf'') None None,
      MainHandlesStage1 (ex_pdf ''a.pdf''), MainLeavesStage1Loop, LlmWorkerStarts,
      RequestStop, LlmWorkerFinishes ''a'' None (Some 0), MainHandlesStage2 ''a'',
      MainReturns]"

definition invalid_text_run :: "event list" where
  "invalid_text_run =
     [OcrWorkerStarts, OcrWorkerFinishes (ex_pdf ''empty.pdf'') None None,
      MainHandlesStage1 (ex_pdf ''empty.pdf''), MainLeavesStage1Loop,
      MainLeavesStage2Loop, MainReturns]"

definition four_ready_one_worker :: "event list" where
  "four_ready_one_worker =
     [OcrWorkerStarts, OcrWorkerStarts, OcrWorkerStarts, OcrWorkerStarts,
      OcrWorkerFinishes (ex_pdf ''a.pdf'') None None, MainHandlesStage1 (ex_pdf ''a.pdf''),
      LlmWorkerStarts,
      OcrWorkerFinishes (ex_pdf ''b.pdf'') None None, MainHandlesStage1 (ex_pdf ''b.pdf''),
      OcrWorkerFinishes (ex_pdf ''c.pdf'') None None, MainHandlesStage1 (ex_pdf ''c.pdf''),
      OcrWorkerFinishes (ex_pdf ''d.pdf'') None None, MainHandlesStage1 (ex_pdf ''d.pdf'')]"

text \<open>
  In \<open>exception_in_stage1\<close> and \<open>exception_in_stage2\<close> the task of the only item raises
  in the first and in the second stage, and nobody asks for a stop; in \<open>failure_in_stage1\<close>
  the only item has no text. All three end when the main thread is about to handle the
  completed future.
\<close>

definition exception_in_stage1 :: "event list" where
  "exception_in_stage1 =
     [OcrWorkerStarts,
      OcrWorkerFinishes (ex_pdf ''a.pdf'') (Some ''connection refused'') None]"

definition exception_in_stage2 :: "event list" where
  "exception_in_stage2 =
     [OcrWorkerStarts, OcrWorkerFinishes (ex_pdf ''a.pdf'') None None,
      MainHandlesStage1 (ex_pdf ''a.pdf''), MainLeavesStage1Loop, LlmWorkerStarts,
      LlmWorkerFinishes ''a'' (Some ''connection refused'') None]"


section \<open>Database rows after a save\<close>



lemma filter_update_first_other:
  "(\<And>y. P y \<Longrightarrow> \<not> Q (f y)) \<Longrightarrow> (\<And>y. Q y \<Longrightarrow> \<not> P y) \<Longrightarrow> filter Q (update_first P f xs) = filter Q xs"
  by (induction xs) auto




lemma assign_property_id [simp]: "prop_document_id (assign_property pd n p) = prop_document_id p"
  by (simp add: assign_property_def)







section \<open>Moving files\<close>

lemma move_file_None_iff:
  "(fst (move_file source d filename fs) = None) =
     (d \<in> denied fs \<or> files fs source = None \<or> parent source \<in> denied fs)"
  by (auto simp: move_file_def mkdir_def shutil_move_def Let_def split: option.splits)

lemma move_file_cases:
  "move_file source d filename fs = (None, fs) \<or>
   (\<exists>dest c. move_file source d filename fs =
                (Some dest, fs\<lparr>files := (files fs)(source := None, dest \<mapsto> c)\<rparr>)
             \<and> parent dest = d \<and> files fs source = Some c)"
  by (auto simp: move_file_def mkdir_def shutil_move_def Let_def split: option.splits)

section \<open>Stage 2 and the file system\<close>

lemma stage2_body_stopped_fs:
  "stage2_body P flag s1 res db fs = (Some (ProcessingStoppedException m), res', db', fs')
     \<Longrightarrow> fs' = fs"
  by (auto simp: stage2_body_def Let_def split: if_splits sum.splits option.splits prod.splits)

lemma stage2_body_completed_status:
  "stage2_body P flag s1 res db fs = (None, res', db', fs') \<Longrightarrow> r_status res' = Success"
  by (auto simp: stage2_body_def Let_def split: if_splits sum.splits option.splits prod.splits)

lemma stage2_body_exn_indep:
  "fst (stage2_body P flag s1 res db fs) = fst (stage2_body P flag s1 res db fs2)"
  by (auto simp: stage2_body_def Let_def split: if_splits sum.splits option.splits prod.splits)

lemma stage2_status_by_exn:
  "r_status (fst (process_stage2_llm P flag s1 db fs)) =
     (case fst (stage2_body P flag s1
                  \<lparr>r_document_id = document_id s1, r_status = Failed,
                   r_registration_fee = registration_fee s1, llm_extracted = False,
                   saved_to_db = False, table_detected = Some False, r_error = None\<rparr> db fs) of
        None \<Rightarrow> Success
      | Some (ProcessingStoppedException m) \<Rightarrow> Stopped
      | Some (Exception e) \<Rightarrow> Failed)"
  by (auto simp: process_stage2_llm_def Let_def dest: stage2_body_completed_status
      split: prod.splits option.splits exn.splits)

lemma stage2_status_indep:
  "r_status (fst (process_stage2_llm P flag s1 db fs)) =
   r_status (fst (process_stage2_llm P flag s1 db fs2))"
  unfolding stage2_status_by_exn using stage2_body_exn_indep[of P flag s1 _ db fs fs2] by simp

lemma stage2_stopped_fs:
  "r_status (fst (process_stage2_llm P flag s1 db fs)) = Stopped \<Longrightarrow>
   snd (snd (process_stage2_llm P flag s1 db fs)) = fs"
  by (auto simp: process_stage2_llm_def Let_def
      dest: stage2_body_completed_status stage2_body_stopped_fs
      split: prod.splits option.splits exn.splits)

lemma step_disk_unchanged:
  "step P ev w = Some w' \<Longrightarrow> (\<forall>doc e seen. ev \<noteq> LlmWorkerFinishes doc e seen) \<Longrightarrow>
   disk w' = disk w"
  by (cases ev)
     (auto simp: main_handles_stage1_def main_handles_stage2_def record_result_def
       split: list.splits if_splits option.splits outcome.splits)

section \<open>The counters of a run\<close>

lemma length_remove1_find:
  "find Q xs = Some x \<Longrightarrow> int (length (remove1 x xs)) = int (length xs) - 1"
proof -
  assume "find Q xs = Some x"
  then have "x \<in> set xs" by (auto simp: find_Some_iff)
  then have "length (remove1 x xs) = length xs - 1" "0 < length xs"
    by (auto simp: length_remove1 length_pos_if_in_set)
  then show ?thesis by (cases xs) simp_all
qed

lemma record_result_counts:
  "processed (stats (record_result res w)) = processed (stats w) + 1"
  "counted (record_result res w) = counted w + 1"
  "in_flight (record_result res w) = in_flight w"
  "total (stats (record_result res w)) = total (stats w)"
  "is_running (record_result res w) = is_running w"
  "main_at (record_result res w) = main_at w"
  by (cases "r_status res"; simp add: record_result_def update_completion_stats_def counted_def in_flight_def)+

lemma step_counters_ok:
  assumes "step P ev w = Some w'" and "counters_ok w"
  shows "counters_ok w'"
proof (cases ev)
  case OcrWorkerStarts
  with assms show ?thesis
    by (auto simp: counters_ok_def counted_def in_flight_def split: list.splits if_splits)
next
  case (OcrWorkerFinishes pdf e seen)
  with assms show ?thesis
    by (auto simp: counters_ok_def counted_def in_flight_def length_remove1_find
        split: option.splits if_splits)
next
  case (MainHandlesStage1 pdf)
  with assms obtain d where d: "find (\<lambda>d. fst d = pdf) (stage1_done w) = Some d"
    and w': "w' = main_handles_stage1 pdf (snd d) (w\<lparr>stage1_done := remove1 d (stage1_done w)\<rparr>)"
    by (auto split: option.splits if_splits)
  let ?w = "w\<lparr>stage1_done := remove1 d (stage1_done w)\<rparr>"
  have a: "in_flight ?w = in_flight w - 1" "counted ?w = counted w" "stats ?w = stats w"
    using length_remove1_find[OF d] by (simp_all add: in_flight_def counted_def)
  show ?thesis using assms(2) a unfolding w' counters_ok_def main_handles_stage1_def
    by (auto simp: record_result_counts split: outcome.splits)
       (auto simp: in_flight_def counted_def)
next
  case MainLeavesStage1Loop
  with assms show ?thesis
    by (auto simp: counters_ok_def counted_def in_flight_def split: if_splits)
next
  case LlmWorkerStarts
  with assms show ?thesis
    by (auto simp: counters_ok_def counted_def in_flight_def split: list.splits if_splits)
next
  case (LlmWorkerFinishes doc e seen)
  with assms show ?thesis
    by (auto simp: counters_ok_def counted_def in_flight_def length_remove1_find
        split: option.splits if_splits prod.splits)
next
  case (MainHandlesStage2 doc)
  with assms obtain d where d: "find (\<lambda>d. document_id (fst d) = doc) (stage2_done w) = Some d"
    and w': "w' = main_handles_stage2 (fst d) (snd d) (w\<lparr>stage2_done := remove1 d (stage2_done w)\<rparr>)"
    by (auto split: option.splits if_splits)
  let ?w = "w\<lparr>stage2_done := remove1 d (stage2_done w)\<rparr>"
  have a: "in_flight ?w = in_flight w - 1" "counted ?w = counted w" "stats ?w = stats w"
    using length_remove1_find[OF d] by (simp_all add: in_flight_def counted_def)
  show ?thesis using assms(2) a unfolding w' counters_ok_def main_handles_stage2_def
    by (auto simp: record_result_counts split: outcome.splits)
       (auto simp: in_flight_def counted_def)
next
  case MainLeavesStage2Loop
  with assms show ?thesis
    by (auto simp: counters_ok_def counted_def in_flight_def split: if_splits)
next
  case MainReturns
  with assms show ?thesis
    by (auto simp: counters_ok_def counted_def in_flight_def split: if_splits)
next
  case RequestStop
  with assms show ?thesis
    by (auto simp: counters_ok_def counted_def in_flight_def)
qed

lemma step_all_accounted:
  assumes "step P ev w = Some w'" and "all_accounted w" and "ev \<noteq> RequestStop"
  shows "all_accounted w'"
proof (cases ev)
  case OcrWorkerStarts
  with assms show ?thesis
    by (auto simp: all_accounted_def counted_def in_flight_def split: list.splits if_splits)
next
  case (OcrWorkerFinishes pdf e seen)
  with assms show ?thesis
    by (auto simp: all_accounted_def counted_def in_flight_def length_remove1_find
        split: option.splits if_splits)
next
  case (MainHandlesStage1 pdf)
  with assms obtain d where d: "find (\<lambda>d. fst d = pdf) (stage1_done w) = Some d"
    and w': "w' = main_handles_stage1 pdf (snd d) (w\<lparr>stage1_done := remove1 d (stage1_done w)\<rparr>)"
    and m: "main_at w = InStage1Loop"
    by (auto split: option.splits if_splits)
  let ?w = "w\<lparr>stage1_done := remove1 d (stage1_done w)\<rparr>"
  have r: "is_running w" using assms(2) m by (simp add: all_accounted_def)
  have a: "in_flight ?w = in_flight w - 1" "counted ?w = counted w" "stats ?w = stats w"
    using length_remove1_find[OF d] by (simp_all add: in_flight_def counted_def)
  show ?thesis using assms(2) a r unfolding w' all_accounted_def main_handles_stage1_def
    by (auto simp: record_result_counts split: outcome.splits)
       (auto simp: in_flight_def counted_def)
next
  case MainLeavesStage1Loop
  with assms show ?thesis
    by (auto simp: all_accounted_def counted_def in_flight_def split: if_splits)
next
  case LlmWorkerStarts
  with assms show ?thesis
    by (auto simp: all_accounted_def counted_def in_flight_def split: list.splits if_splits)
next
  case (LlmWorkerFinishes doc e seen)
  with assms show ?thesis
    by (auto simp: all_accounted_def counted_def in_flight_def length_remove1_find
        split: option.splits if_splits prod.splits)
next
  case (MainHandlesStage2 doc)
  with assms obtain d where d: "find (\<lambda>d. document_id (fst d) = doc) (stage2_done w) = Some d"
    and w': "w' = main_handles_stage2 (fst d) (snd d) (w\<lparr>stage2_done := remove1 d (stage2_done w)\<rparr>)"
    and m: "main_at w = InStage2Loop"
    by (auto split: option.splits if_splits)
  let ?w = "w\<lparr>stage2_done := remove1 d (stage2_done w)\<rparr>"
  have r: "is_running w" using assms(2) m by (simp add: all_accounted_def)
  have a: "in_flight ?w = in_flight w - 1" "counted ?w = counted w" "stats ?w = stats w"
    using length_remove1_find[OF d] by (simp_all add: in_flight_def counted_def)
  show ?thesis using assms(2) a r unfolding w' all_accounted_def main_handles_stage2_def
    by (auto simp: record_result_counts split: outcome.splits)
next
  case MainLeavesStage2Loop
  with assms show ?thesis
    by (auto simp: all_accounted_def counted_def in_flight_def split: if_splits)
next
  case MainReturns
  with assms show ?thesis
    by (auto simp: all_accounted_def counted_def in_flight_def split: if_splits)
next
  case RequestStop
  with assms show ?thesis by simp
qed

lemma run_counters_ok:
  "run P evs w = Some w' \<Longrightarrow> counters_ok w \<Longrightarrow> counters_ok w'"
  by (induction evs arbitrary: w) (auto split: option.splits dest: step_counters_ok)

lemma run_all_accounted:
  "run P evs w = Some w' \<Longrightarrow> all_accounted w \<Longrightarrow> RequestStop \<notin> set evs \<Longrightarrow> all_accounted w'"
  by (induction evs arbitrary: w) (auto split: option.splits dest: step_all_accounted)

lemma start_counters:
  "counters_ok (start a b q pdfs db0 fs0)" "all_accounted (start a b q pdfs db0 fs0)"
  by (simp_all add: counters_ok_def all_accounted_def counted_def in_flight_def start_def)

lemma in_flight_nonneg: "0 \<le> in_flight w"
  by (simp add: in_flight_def)

lemma drained_in_flight: "drained w \<Longrightarrow> in_flight w = 0"
  by (simp add: drained_def in_flight_def)

section \<open>What reaches stage 2, and what is recorded\<close>

lemma find_in_set: "find Q xs = Some x \<Longrightarrow> x \<in> set xs"
  by (auto simp: find_Some_iff)




section \<open>Stopped results are never recorded\<close>

lemma stage1_body_not_stopped:
  "\<forall>k. flag k \<Longrightarrow> stage1_body P flag pdf i \<noteq> Inl (ProcessingStoppedException m)"
  by (auto simp: stage1_body_def stop_check_def split: sum.splits if_splits)

lemma stage1_body_returns_success:
  "stage1_body P flag pdf i = Inr r \<Longrightarrow> status r = Success"
  by (auto simp: stage1_body_def split: sum.splits if_splits)

lemma stage1_not_stopped:
  "\<forall>k. flag k \<Longrightarrow> status (process_stage1_ocr P flag pdf) \<noteq> Stopped"
  using stage1_body_not_stopped[of flag P pdf]
  by (auto simp: process_stage1_ocr_def Let_def split: sum.splits exn.splits
      dest: stage1_body_returns_success)

lemma stage2_body_not_stopped:
  "\<forall>k. flag k \<Longrightarrow> fst (stage2_body P flag s1 res db fs) \<noteq> Some (ProcessingStoppedException m)"
  by (auto simp: stage2_body_def stop_check_def Let_def
      split: sum.splits if_splits option.splits prod.splits)

lemma stage2_not_stopped:
  "\<forall>k. flag k \<Longrightarrow> r_status (fst (process_stage2_llm P flag s1 db fs)) \<noteq> Stopped"
  unfolding stage2_status_by_exn
  using stage2_body_not_stopped[of flag P s1]
  by (auto split: option.splits exn.splits)

lemma flag_seen_None [simp]: "flag_seen None k"
  by (simp add: flag_seen_def)

lemma possible_view_running: "possible_view b True seen \<Longrightarrow> seen = None"
  by (simp add: possible_view_def)

lemma stage1_ocr_not_stopped:
  "stage1_ocr P e (flag_seen None) pdf = Returned r \<Longrightarrow> status r \<noteq> Stopped"
  using stage1_not_stopped[of "flag_seen None" P pdf]
  by (auto simp: stage1_ocr_def split: option.splits)

lemma stage2_llm_not_stopped:
  "stage2_llm P e (flag_seen None) s1 db fs = (Returned res, db', fs') \<Longrightarrow> r_status res \<noteq> Stopped"
  using stage2_not_stopped[of "flag_seen None" P s1 db fs]
  by (auto simp: stage2_llm_def split: option.splits prod.splits)

lemma record_result_not_stopped:
  "r_status res \<noteq> Stopped \<Longrightarrow> stopped (stats (record_result res w)) = stopped (stats w)"
  by (simp add: record_result_def update_completion_stats_def)

lemma record_result_fields [simp]:
  "results (record_result res w) = results w @ [res]"
  "stage1_done (record_result res w) = stage1_done w"
  "stage2_done (record_result res w) = stage2_done w"
  "llm_waiting (record_result res w) = llm_waiting w"
  "llm_working (record_result res w) = llm_working w"
  "ocr_waiting (record_result res w) = ocr_waiting w"
  "ocr_working (record_result res w) = ocr_working w"
  "stage2_queue (record_result res w) = stage2_queue w"
  "store (record_result res w) = store w"
  "disk (record_result res w) = disk w"
  by (simp_all add: record_result_def)

lemma step_no_stopped:
  assumes "step P ev w = Some w'" and "no_stopped_recorded w"
  shows "no_stopped_recorded w'"
proof (cases ev)
  case (OcrWorkerFinishes pdf e seen)
  with assms obtain t where
    t: "find (\<lambda>t. fst t = pdf) (ocr_working w) = Some t"
    and v: "possible_view (snd t) (is_running w) seen"
    and w': "w' = w\<lparr>ocr_working := remove1 t (ocr_working w),
                     stage1_done := stage1_done w @ [(pdf, stage1_ocr P e (flag_seen seen) pdf)],
                     stats := (stats w)\<lparr>ocr_active := ocr_active (stats w) - 1\<rparr>\<rparr>"
    by (auto split: option.splits if_splits)
  have "is_running w \<Longrightarrow> \<forall>r. stage1_ocr P e (flag_seen seen) pdf = Returned r \<longrightarrow> status r \<noteq> Stopped"
  proof -
    assume "is_running w"
    then have "seen = None" using v by (simp add: possible_view_def)
    then show ?thesis using stage1_ocr_not_stopped by blast
  qed
  then show ?thesis using assms(2) unfolding w' no_stopped_recorded_def by auto
next
  case (LlmWorkerFinishes doc e seen)
  with assms obtain t out db' fs' where
    t: "find (\<lambda>t. document_id (fst t) = doc) (llm_working w) = Some t"
    and v: "possible_view (snd t) (is_running w) seen"
    and o: "stage2_llm P e (flag_seen seen) (fst t) (store w) (disk w) = (out, db', fs')"
    and w': "w' = w\<lparr>llm_working := remove1 t (llm_working w),
                     stage2_done := stage2_done w @ [(fst t, out)],
                     stats := (stats w)\<lparr>llm_active := llm_active (stats w) - 1\<rparr>,
                     store := db', disk := fs'\<rparr>"
    by (auto split: option.splits if_splits prod.splits)
  have "is_running w \<Longrightarrow> \<forall>res. out = Returned res \<longrightarrow> r_status res \<noteq> Stopped"
  proof -
    assume "is_running w"
    then have "seen = None" using v by (simp add: possible_view_def)
    then show ?thesis using o stage2_llm_not_stopped by blast
  qed
  then show ?thesis using assms(2) unfolding w' no_stopped_recorded_def by auto
next
  case (MainHandlesStage1 pdf)
  with assms obtain d where d: "find (\<lambda>d. fst d = pdf) (stage1_done w) = Some d"
    and w': "w' = main_handles_stage1 pdf (snd d) (w\<lparr>stage1_done := remove1 d (stage1_done w)\<rparr>)"
    by (auto split: option.splits if_splits)
  have din: "d \<in> set (stage1_done w)" using d by (rule find_in_set)
  have sub: "set (remove1 d (stage1_done w)) \<subseteq> set (stage1_done w)" by (rule set_remove1_subset)
  show ?thesis
  proof (cases "is_running w")
    case False
    then show ?thesis using assms(2) unfolding w' no_stopped_recorded_def main_handles_stage1_def
      by simp
  next
    case True
    then have ok: "\<forall>r. snd d = Returned r \<longrightarrow> status r \<noteq> Stopped"
      using assms(2) din by (auto simp: no_stopped_recorded_def)
    show ?thesis using assms(2) True ok sub unfolding w' no_stopped_recorded_def main_handles_stage1_def
      by (auto simp: record_result_not_stopped record_result_def update_completion_stats_def split: outcome.splits)
  qed
next
  case (MainHandlesStage2 doc)
  with assms obtain d where d: "find (\<lambda>d. document_id (fst d) = doc) (stage2_done w) = Some d"
    and w': "w' = main_handles_stage2 (fst d) (snd d) (w\<lparr>stage2_done := remove1 d (stage2_done w)\<rparr>)"
    by (auto split: option.splits if_splits)
  have din: "d \<in> set (stage2_done w)" using d by (rule find_in_set)
  have sub: "set (remove1 d (stage2_done w)) \<subseteq> set (stage2_done w)" by (rule set_remove1_subset)
  show ?thesis
  proof (cases "is_running w")
    case False
    then show ?thesis using assms(2) unfolding w' no_stopped_recorded_def main_handles_stage2_def
      by simp
  next
    case True
    then have ok: "\<forall>r. snd d = Returned r \<longrightarrow> r_status r \<noteq> Stopped"
      using assms(2) din by (auto simp: no_stopped_recorded_def)
    show ?thesis using assms(2) True ok sub unfolding w' no_stopped_recorded_def main_handles_stage2_def
      by (auto simp: record_result_not_stopped record_result_def update_completion_stats_def split: outcome.splits)
  qed
qed (use assms in \<open>auto simp: no_stopped_recorded_def split: list.splits option.splits if_splits\<close>)

lemma run_no_stopped:
  "run P evs w = Some w' \<Longrightarrow> no_stopped_recorded w \<Longrightarrow> no_stopped_recorded w'"
  by (induction evs arbitrary: w) (auto split: option.splits dest: step_no_stopped)

lemma start_no_stopped: "no_stopped_recorded (start a b q pdfs db0 fs0)"
  by (simp add: no_stopped_recorded_def start_def)

lemma stopped_counter_stays_zero:
  "run P evs (start a b q pdfs db0 fs0) = Some w \<Longrightarrow>
   stopped (stats w) = 0 \<and> (\<forall>res \<in> set (results w). r_status res \<noteq> Stopped)"
  using run_no_stopped[OF _ start_no_stopped] by (simp add: no_stopped_recorded_def)





section \<open>Helper facts about the queue and the correction pipeline\<close>

lemma stage2_queue_step: "step P ev w = Some w' \<Longrightarrow> stage2_queue w' = stage2_queue w"
  by (cases ev)
     (auto simp: main_handles_stage1_def main_handles_stage2_def record_result_def
       split: list.splits if_splits option.splits outcome.splits prod.splits)

lemma stage2_queue_never_used:
  "run P evs (start a b q pdfs db0 fs0) = Some w \<Longrightarrow> stage2_queue w = []"
proof -
  have "run P evs w0 = Some w \<Longrightarrow> stage2_queue w = stage2_queue w0" for w0
    by (induction evs arbitrary: w0) (auto split: option.splits dest: stage2_queue_step)
  then show "run P evs (start a b q pdfs db0 fs0) = Some w \<Longrightarrow> stage2_queue w = []"
    by (simp add: start_def)
qed







section \<open>The handoff between the stages\<close>

text \<open>
  Claim C1. The claim says that a stage-1 success is handed to stage 2 by a blocking put
  into a channel of the configured capacity, so that never more than that many finished
  items wait between the stages. The code allocates the queue and then hands every success
  to the LLM pool with \<open>submit\<close>, which never blocks (\<open>stage2_queue_never_used\<close>: the queue
  stays empty in every run). With four files, one LLM worker and a queue size of two, the
  schedule \<open>four_ready_one_worker\<close> reaches a state in which the worker is busy with
  \<open>a\<close>, three finished items \<open>b\<close>, \<open>c\<close>, \<open>d\<close> wait for stage 2, the \<open>in_queue\<close> counter
  reads three, and no OCR worker is held back.
\<close>

theorem handoff_not_bounded:
  "run ex_processor four_ready_one_worker
        (start 5 1 2 [ex_pdf ''a.pdf'', ex_pdf ''b.pdf'', ex_pdf ''c.pdf'', ex_pdf ''d.pdf'']
           ex_db ex_fs) \<noteq> None
   \<and> map document_id (llm_waiting (the (run ex_processor four_ready_one_worker
        (start 5 1 2 [ex_pdf ''a.pdf'', ex_pdf ''b.pdf'', ex_pdf ''c.pdf'', ex_pdf ''d.pdf'']
           ex_db ex_fs)))) = [''b'', ''c'', ''d'']
   \<and> map document_id (map fst (llm_working (the (run ex_processor four_ready_one_worker
        (start 5 1 2 [ex_pdf ''a.pdf'', ex_pdf ''b.pdf'', ex_pdf ''c.pdf'', ex_pdf ''d.pdf'']
           ex_db ex_fs))))) = [''a'']
   \<and> STAGE2_QUEUE_SIZE (the (run ex_processor four_ready_one_worker
        (start 5 1 2 [ex_pdf ''a.pdf'', ex_pdf ''b.pdf'', ex_pdf ''c.pdf'', ex_pdf ''d.pdf'']
           ex_db ex_fs))) = 2
   \<and> stage2_queue (the (run ex_processor four_ready_one_worker
        (start 5 1 2 [ex_pdf ''a.pdf'', ex_pdf ''b.pdf'', ex_pdf ''c.pdf'', ex_pdf ''d.pdf'']
           ex_db ex_fs))) = []
   \<and> in_queue (stats (the (run ex_processor four_ready_one_worker
        (start 5 1 2 [ex_pdf ''a.pdf'', ex_pdf ''b.pdf'', ex_pdf ''c.pdf'', ex_pdf ''d.pdf'']
           ex_db ex_fs)))) = 3
   \<and> ocr_working (the (run ex_processor four_ready_one_worker
        (start 5 1 2 [ex_pdf ''a.pdf'', ex_pdf ''b.pdf'', ex_pdf ''c.pdf'', ex_pdf ''d.pdf'']
           ex_db ex_fs))) = []"
proof -
  let ?r = "run ex_processor four_ready_one_worker
        (start 5 1 2 [ex_pdf ''a.pdf'', ex_pdf ''b.pdf'', ex_pdf ''c.pdf'', ex_pdf ''d.pdf'']
           ex_db ex_fs)"
  have 1: "?r \<noteq> None" by code_simp
  have 2: "map document_id (llm_waiting (the ?r)) = [''b'', ''c'', ''d'']" by code_simp
  have 3: "map document_id (map fst (llm_working (the ?r))) = [''a'']" by code_simp
  have 4: "STAGE2_QUEUE_SIZE (the ?r) = 2" by code_simp
  have 5: "stage2_queue (the ?r) = []" by code_simp
  have 6: "in_queue (stats (the ?r)) = 3" by code_simp
  have 7: "ocr_working (the ?r) = []" by code_simp
  show ?thesis using 1 2 3 4 5 6 7 by simp
qed

section \<open>Failed items and the failure directory\<close>

text \<open>
  Claim C2. The claim says that every item whose stage function returns \<open>Failed\<close>, a
  stage-1 validation failure included, has its file moved to the failure location. In the
  run \<open>invalid_text_run\<close> the only file has no text: stage 1 returns \<open>Failed\<close> with
  \<open>OCR returned insufficient text\<close>, the summary counts one failed item, and the file is
  still where it was uploaded; nothing is in the failure directory. (Only the \<open>except\<close>
  branch of stage 2 moves a file there.)
\<close>

theorem stage1_failure_leaves_file:
  "run ex_processor invalid_text_run (start 5 5 2 [ex_pdf ''empty.pdf''] ex_db ex_fs) \<noteq> None
   \<and> main_at (the (run ex_processor invalid_text_run
        (start 5 5 2 [ex_pdf ''empty.pdf''] ex_db ex_fs))) = Finished
   \<and> map r_status (results (the (run ex_processor invalid_text_run
        (start 5 5 2 [ex_pdf ''empty.pdf''] ex_db ex_fs)))) = [Failed]
   \<and> map r_error (results (the (run ex_processor invalid_text_run
        (start 5 5 2 [ex_pdf ''empty.pdf''] ex_db ex_fs))))
       = [Some ''OCR returned insufficient text'']
   \<and> failed (stats (the (run ex_processor invalid_text_run
        (start 5 5 2 [ex_pdf ''empty.pdf''] ex_db ex_fs)))) = 1
   \<and> files (disk (the (run ex_processor invalid_text_run
        (start 5 5 2 [ex_pdf ''empty.pdf''] ex_db ex_fs)))) (ex_pdf ''empty.pdf'') = Some ''E''
   \<and> files (disk (the (run ex_processor invalid_text_run
        (start 5 5 2 [ex_pdf ''empty.pdf''] ex_db ex_fs)))) (Path ''failed'' ''empty.pdf'') = None"
proof -
  let ?r = "run ex_processor invalid_text_run (start 5 5 2 [ex_pdf ''empty.pdf''] ex_db ex_fs)"
  have 1: "?r \<noteq> None" by code_simp
  have 2: "main_at (the ?r) = Finished" by code_simp
  have 3: "map r_status (results (the ?r)) = [Failed]" by code_simp
  have 4: "map r_error (results (the ?r)) = [Some ''OCR returned insufficient text'']"
    by code_simp
  have 5: "failed (stats (the ?r)) = 1" by code_simp
  have 6: "files (disk (the ?r)) (ex_pdf ''empty.pdf'') = Some ''E''" by code_simp
  have 7: "files (disk (the ?r)) (Path ''failed'' ''empty.pdf'') = None" by code_simp
  show ?thesis using 1 2 3 4 5 6 7 by simp
qed

section \<open>Stopping a run\<close>

text \<open>
  Claim C3. The claim says that an item stopped mid-run is counted in the \<open>stopped\<close>
  counter, and that the single-item run stopped before stage 2 ends with \<open>stopped = 1\<close>.
  In \<open>stop_before_stage2\<close> the stop comes after stage 1; an LLM worker still takes the
  item, its stage-2 call returns \<open>Stopped\<close> at the first check, and the main thread, which
  finds the flag cleared, leaves its loop without recording the result: the summary has
  \<open>stopped = 0\<close>, \<open>processed = 0\<close> and no result. (\<open>stopped_counter_stays_zero\<close>: no run
  ever counts a stopped item.)
\<close>

theorem stopped_item_not_counted:
  "run ex_processor stop_before_stage2 (start 5 5 2 [ex_pdf ''a.pdf''] ex_db ex_fs) \<noteq> None
   \<and> map stage2_status (map snd (stage2_done (the (run ex_processor (take 7 stop_before_stage2)
        (start 5 5 2 [ex_pdf ''a.pdf''] ex_db ex_fs))))) = [Some Stopped]
   \<and> main_at (the (run ex_processor stop_before_stage2
        (start 5 5 2 [ex_pdf ''a.pdf''] ex_db ex_fs))) = Finished
   \<and> stopped (stats (the (run ex_processor stop_before_stage2
        (start 5 5 2 [ex_pdf ''a.pdf''] ex_db ex_fs)))) = 0
   \<and> processed (stats (the (run ex_processor stop_before_stage2
        (start 5 5 2 [ex_pdf ''a.pdf''] ex_db ex_fs)))) = 0
   \<and> results (the (run ex_processor stop_before_stage2
        (start 5 5 2 [ex_pdf ''a.pdf''] ex_db ex_fs))) = []"
proof -
  let ?w0 = "start 5 5 2 [ex_pdf ''a.pdf''] ex_db ex_fs"
  let ?r = "run ex_processor stop_before_stage2 ?w0"
  have 1: "?r \<noteq> None" by code_simp
  have 2: "map stage2_status (map snd (stage2_done (the (run ex_processor
             (take 7 stop_before_stage2) ?w0)))) = [Some Stopped]" by code_simp
  have 3: "main_at (the ?r) = Finished" by code_simp
  have 4: "stopped (stats (the ?r)) = 0" by code_simp
  have 5: "processed (stats (the ?r)) = 0" by code_simp
  have 6: "results (the ?r) = []" by code_simp
  show ?thesis using 1 2 3 4 5 6 by simp
qed

section \<open>The counters\<close>

text \<open>
  Claim C4, amended. In every state of every run the three terminal counters sum to at most
  \<open>total\<close>. When nobody has asked for a stop and nothing is pending, in flight or queued,
  the sum is \<open>total\<close>.
\<close>

theorem counters_bounded_by_total:
  assumes "run P evs (start a b q pdfs db0 fs0) = Some w"
  shows "successful (stats w) + failed (stats w) + stopped (stats w) \<le> total (stats w)
       \<and> (RequestStop \<notin> set evs \<and> drained w \<longrightarrow>
            successful (stats w) + failed (stats w) + stopped (stats w) = total (stats w))"
proof -
  have "counters_ok w" using run_counters_ok[OF assms] start_counters(1) by blast
  then have le: "counted w \<le> total (stats w)"
    using in_flight_nonneg[of w] by (simp add: counters_ok_def)
  have "RequestStop \<notin> set evs \<Longrightarrow> drained w \<Longrightarrow> counted w = total (stats w)"
  proof -
    assume n: "RequestStop \<notin> set evs" and d: "drained w"
    have "all_accounted w" using run_all_accounted[OF assms start_counters(2) n] .
    then show ?thesis using drained_in_flight[OF d] by (simp add: all_accounted_def)
  qed
  with le show ?thesis by (auto simp: counted_def)
qed

theorem counters_bounded_by_total_witness:
  "run ex_processor run_to_completion (start 5 5 2 [ex_pdf ''a.pdf''] ex_db ex_fs) \<noteq> None
   \<and> RequestStop \<notin> set run_to_completion
   \<and> drained (the (run ex_processor run_to_completion (start 5 5 2 [ex_pdf ''a.pdf''] ex_db ex_fs)))
   \<and> successful (stats (the (run ex_processor run_to_completion (start 5 5 2 [ex_pdf ''a.pdf''] ex_db ex_fs))))
     + failed (stats (the (run ex_processor run_to_completion (start 5 5 2 [ex_pdf ''a.pdf''] ex_db ex_fs))))
     + stopped (stats (the (run ex_processor run_to_completion (start 5 5 2 [ex_pdf ''a.pdf''] ex_db ex_fs))))
     = total (stats (the (run ex_processor run_to_completion (start 5 5 2 [ex_pdf ''a.pdf''] ex_db ex_fs))))
   \<and> total (stats (the (run ex_processor run_to_completion (start 5 5 2 [ex_pdf ''a.pdf''] ex_db ex_fs)))) = 1"
proof -
  let ?r = "run ex_processor run_to_completion (start 5 5 2 [ex_pdf ''a.pdf''] ex_db ex_fs)"
  have n: "?r \<noteq> None" by code_simp
  then obtain w where w: "?r = Some w" by blast
  have s: "RequestStop \<notin> set run_to_completion" by code_simp
  have d: "drained (the ?r)" by code_simp
  have t: "total (stats (the ?r)) = 1" by code_simp
  from counters_bounded_by_total[OF w] s d w
  have "successful (stats w) + failed (stats w) + stopped (stats w) = total (stats w)" by simp
  then show ?thesis using n s d t w by simp
qed

text \<open>
  Claim C4 as stated fails after a stop: in \<open>stop_after_one_failure\<close> the run has returned
  and nothing is pending, in flight or queued, yet one of two items is counted.
\<close>

theorem drained_below_total_counterexample:
  "run ex_processor stop_after_one_failure
       (start 5 5 2 [ex_pdf ''empty.pdf'', ex_pdf ''a.pdf''] ex_db ex_fs) \<noteq> None
   \<and> drained (the (run ex_processor stop_after_one_failure
       (start 5 5 2 [ex_pdf ''empty.pdf'', ex_pdf ''a.pdf''] ex_db ex_fs)))
   \<and> main_at (the (run ex_processor stop_after_one_failure
       (start 5 5 2 [ex_pdf ''empty.pdf'', ex_pdf ''a.pdf''] ex_db ex_fs))) = Finished
   \<and> successful (stats (the (run ex_processor stop_after_one_failure
       (start 5 5 2 [ex_pdf ''empty.pdf'', ex_pdf ''a.pdf''] ex_db ex_fs))))
     + failed (stats (the (run ex_processor stop_after_one_failure
       (start 5 5 2 [ex_pdf ''empty.pdf'', ex_pdf ''a.pdf''] ex_db ex_fs))))
     + stopped (stats (the (run ex_processor stop_after_one_failure
       (start 5 5 2 [ex_pdf ''empty.pdf'', ex_pdf ''a.pdf''] ex_db ex_fs)))) = 1
   \<and> total (stats (the (run ex_processor stop_after_one_failure
       (start 5 5 2 [ex_pdf ''empty.pdf'', ex_pdf ''a.pdf''] ex_db ex_fs)))) = 2"
proof -
  let ?r = "run ex_processor stop_after_one_failure
       (start 5 5 2 [ex_pdf ''empty.pdf'', ex_pdf ''a.pdf''] ex_db ex_fs)"
  have 1: "?r \<noteq> None" by code_simp
  have 2: "drained (the ?r)" by code_simp
  have 3: "main_at (the ?r) = Finished" by code_simp
  have 4: "successful (stats (the ?r)) + failed (stats (the ?r)) + stopped (stats (the ?r)) = 1"
    by code_simp
  have 5: "total (stats (the ?r)) = 2" by code_simp
  show ?thesis using 1 2 3 4 5 by simp
qed

section \<open>Exceptions of a stage function\<close>

text \<open>
  Claim C5, amended. When the main thread handles, with the flag still set, a completed
  future whose task raised, it appends a \<open>Failed\<close> result that carries the exception's
  text, counts it as failed, and stays in its loop with the flag set; every other item,
  pending, executing or completed, is as before. This holds for the futures of both stages.
\<close>

theorem exception_recorded_as_failed:
  "(is_running w \<and> main_at w = InStage1Loop
      \<and> find (\<lambda>d. fst d = pdf) (stage1_done w) = Some (pdf, Raised e) \<longrightarrow>
     (\<exists>w'. step P (MainHandlesStage1 pdf) w = Some w'
        \<and> results w' = results w @
             [\<lparr>r_document_id = stem (name pdf), r_status = Failed, r_registration_fee = None,
               llm_extracted = False, saved_to_db = False, table_detected = None,
               r_error = Some (''Stage 1 exception: '' @ e)\<rparr>]
        \<and> failed (stats w') = failed (stats w) + 1
        \<and> processed (stats w') = processed (stats w) + 1
        \<and> main_at w' = InStage1Loop \<and> is_running w'
        \<and> ocr_waiting w' = ocr_waiting w \<and> ocr_working w' = ocr_working w
        \<and> stage1_done w' = remove1 (pdf, Raised e) (stage1_done w)
        \<and> llm_waiting w' = llm_waiting w \<and> llm_working w' = llm_working w
        \<and> stage2_done w' = stage2_done w))
   \<and> (is_running w \<and> main_at w = InStage2Loop
      \<and> find (\<lambda>d. document_id (fst d) = doc) (stage2_done w) = Some (s1, Raised e) \<longrightarrow>
     (\<exists>w'. step P (MainHandlesStage2 doc) w = Some w'
        \<and> results w' = results w @
             [\<lparr>r_document_id = document_id s1, r_status = Failed,
               r_registration_fee = registration_fee s1,
               llm_extracted = False, saved_to_db = False, table_detected = None,
               r_error = Some (''Stage 2 exception: '' @ e)\<rparr>]
        \<and> failed (stats w') = failed (stats w) + 1
        \<and> processed (stats w') = processed (stats w) + 1
        \<and> main_at w' = InStage2Loop \<and> is_running w'
        \<and> ocr_waiting w' = ocr_waiting w \<and> ocr_working w' = ocr_working w
        \<and> stage1_done w' = stage1_done w
        \<and> llm_waiting w' = llm_waiting w \<and> llm_working w' = llm_working w
        \<and> stage2_done w' = remove1 (s1, Raised e) (stage2_done w)))"
  by (simp add: main_handles_stage1_def main_handles_stage2_def record_result_def
      update_completion_stats_def)

theorem exception_recorded_as_failed_witness:
  "is_running (the (run ex_processor exception_in_stage1 (start 5 5 2 [ex_pdf ''a.pdf''] ex_db ex_fs)))
   \<and> main_at (the (run ex_processor exception_in_stage1 (start 5 5 2 [ex_pdf ''a.pdf''] ex_db ex_fs)))
       = InStage1Loop
   \<and> find (\<lambda>d. fst d = ex_pdf ''a.pdf'')
        (stage1_done (the (run ex_processor exception_in_stage1
           (start 5 5 2 [ex_pdf ''a.pdf''] ex_db ex_fs))))
       = Some (ex_pdf ''a.pdf'', Raised ''connection refused'')
   \<and> (\<exists>w'. step ex_processor (MainHandlesStage1 (ex_pdf ''a.pdf''))
              (the (run ex_processor exception_in_stage1
                 (start 5 5 2 [ex_pdf ''a.pdf''] ex_db ex_fs))) = Some w'
          \<and> map r_error (results w') = [Some ''Stage 1 exception: connection refused'']
          \<and> map r_status (results w') = [Failed]
          \<and> main_at w' = InStage1Loop)
   \<and> is_running (the (run ex_processor exception_in_stage2 (start 5 5 2 [ex_pdf ''a.pdf''] ex_db ex_fs)))
   \<and> main_at (the (run ex_processor exception_in_stage2 (start 5 5 2 [ex_pdf ''a.pdf''] ex_db ex_fs)))
       = InStage2Loop
   \<and> find (\<lambda>d. document_id (fst d) = ''a'')
        (stage2_done (the (run ex_processor exception_in_stage2
           (start 5 5 2 [ex_pdf ''a.pdf''] ex_db ex_fs))))
       = Some (ex_stage1, Raised ''connection refused'')
   \<and> (\<exists>w'. step ex_processor (MainHandlesStage2 ''a'')
              (the (run ex_processor exception_in_stage2
                 (start 5 5 2 [ex_pdf ''a.pdf''] ex_db ex_fs))) = Some w'
          \<and> map r_error (results w') = [Some ''Stage 2 exception: connection refused'']
          \<and> map r_status (results w') = [Failed]
          \<and> main_at w' = InStage2Loop)"
proof -
  let ?w1 = "the (run ex_processor exception_in_stage1 (start 5 5 2 [ex_pdf ''a.pdf''] ex_db ex_fs))"
  let ?w2 = "the (run ex_processor exception_in_stage2 (start 5 5 2 [ex_pdf ''a.pdf''] ex_db ex_fs))"
  have a1: "is_running ?w1" by code_simp
  have a2: "main_at ?w1 = InStage1Loop" by code_simp
  have a3: "find (\<lambda>d. fst d = ex_pdf ''a.pdf'') (stage1_done ?w1)
              = Some (ex_pdf ''a.pdf'', Raised ''connection refused'')" by code_simp
  have a4: "results ?w1 = []" by code_simp
  have a5: "stem (name (ex_pdf ''a.pdf'')) = ''a''" by code_simp
  have b1: "is_running ?w2" by code_simp
  have b2: "main_at ?w2 = InStage2Loop" by code_simp
  have b3: "find (\<lambda>d. document_id (fst d) = ''a'') (stage2_done ?w2)
              = Some (ex_stage1, Raised ''connection refused'')" by code_simp
  have b4: "results ?w2 = []" by code_simp
  have A: "\<exists>w'. step ex_processor (MainHandlesStage1 (ex_pdf ''a.pdf'')) ?w1 = Some w'
          \<and> map r_error (results w') = [Some ''Stage 1 exception: connection refused'']
          \<and> map r_status (results w') = [Failed]
          \<and> main_at w' = InStage1Loop"
    using exception_recorded_as_failed[of ?w1 "ex_pdf ''a.pdf''" "''connection refused''"
            ex_processor "''a''" ex_stage1] a1 a2 a3 a4
    by auto
  have B: "\<exists>w'. step ex_processor (MainHandlesStage2 ''a'') ?w2 = Some w'
          \<and> map r_error (results w') = [Some ''Stage 2 exception: connection refused'']
          \<and> map r_status (results w') = [Failed]
          \<and> main_at w' = InStage2Loop"
    using exception_recorded_as_failed[of ?w2 "ex_pdf ''a.pdf''" "''connection refused''"
            ex_processor "''a''" ex_stage1] b1 b2 b3 b4
    by auto
  show ?thesis using a1 a2 a3 A b1 b2 b3 B by blast
qed

text \<open>
  Claim C5 as stated fails after a stop: in \<open>stop_then_exception\<close> the task of the only
  item raises, and the run returns without any result for it.
\<close>

theorem exception_after_stop_counterexample:
  "map snd (stage1_done (the (run ex_processor (take 3 stop_then_exception)
        (start 5 5 2 [ex_pdf ''a.pdf''] ex_db ex_fs)))) = [Raised ''connection refused'']
   \<and> run ex_processor stop_then_exception (start 5 5 2 [ex_pdf ''a.pdf''] ex_db ex_fs) \<noteq> None
   \<and> main_at (the (run ex_processor stop_then_exception
        (start 5 5 2 [ex_pdf ''a.pdf''] ex_db ex_fs))) = Finished
   \<and> drained (the (run ex_processor stop_then_exception
        (start 5 5 2 [ex_pdf ''a.pdf''] ex_db ex_fs)))
   \<and> results (the (run ex_processor stop_then_exception
        (start 5 5 2 [ex_pdf ''a.pdf''] ex_db ex_fs))) = []
   \<and> failed (stats (the (run ex_processor stop_then_exception
        (start 5 5 2 [ex_pdf ''a.pdf''] ex_db ex_fs)))) = 0"
proof -
  let ?w0 = "start 5 5 2 [ex_pdf ''a.pdf''] ex_db ex_fs"
  let ?r = "run ex_processor stop_then_exception ?w0"
  have 1: "map snd (stage1_done (the (run ex_processor (take 3 stop_then_exception) ?w0)))
             = [Raised ''connection refused'']" by code_simp
  have 2: "?r \<noteq> None" by code_simp
  have 3: "main_at (the ?r) = Finished" by code_simp
  have 4: "drained (the ?r)" by code_simp
  have 5: "results (the ?r) = []" by code_simp
  have 6: "failed (stats (the ?r)) = 0" by code_simp
  show ?thesis using 1 2 3 4 5 6 by simp
qed

section \<open>Short-circuit after stage 1\<close>




section \<open>Correction inputs\<close>



section \<open>Stopped items keep their file\<close>

text \<open>
  Claim C7. A stage-2 call that ends with status \<open>Stopped\<close> returns the file system
  exactly as it received it: the source file is neither moved to the processed directory nor
  to the failure directory nor anywhere else. Stage 1 and the orchestrator never touch the
  file system at all: every action of the run other than the end of a stage-2 call leaves
  the disk as it was, whatever status the item ends with.
\<close>

theorem stopped_item_file_untouched:
  "(r_status (fst (process_stage2_llm P flag s1 db fs)) = Stopped \<longrightarrow>
      snd (snd (process_stage2_llm P flag s1 db fs)) = fs)
   \<and> (step P ev w = Some w' \<and> (\<forall>doc e seen. ev \<noteq> LlmWorkerFinishes doc e seen) \<longrightarrow>
      disk w' = disk w)"
  using stage2_stopped_fs step_disk_unchanged by blast

theorem stopped_item_file_untouched_witness:
  "r_status (fst (process_stage2_llm ex_processor (\<lambda>k. k < 2) ex_stage1 ex_db ex_fs)) = Stopped
   \<and> snd (snd (process_stage2_llm ex_processor (\<lambda>k. k < 2) ex_stage1 ex_db ex_fs)) = ex_fs
   \<and> run ex_processor (take 2 stop_during_stage1)
         (start 5 5 2 [ex_pdf ''a.pdf''] ex_db ex_fs) \<noteq> None
   \<and> (\<exists>w'. step ex_processor (OcrWorkerFinishes (ex_pdf ''a.pdf'') None (Some 1))
              (the (run ex_processor (take 2 stop_during_stage1)
                      (start 5 5 2 [ex_pdf ''a.pdf''] ex_db ex_fs))) = Some w'
            \<and> map stage1_status (map snd (stage1_done w')) = [Some Stopped]
            \<and> disk w' = disk (the (run ex_processor (take 2 stop_during_stage1)
                                    (start 5 5 2 [ex_pdf ''a.pdf''] ex_db ex_fs))))"
proof -
  let ?w = "the (run ex_processor (take 2 stop_during_stage1)
                   (start 5 5 2 [ex_pdf ''a.pdf''] ex_db ex_fs))"
  let ?ev = "OcrWorkerFinishes (ex_pdf ''a.pdf'') None (Some 1)"
  have a: "r_status (fst (process_stage2_llm ex_processor (\<lambda>k. k < 2) ex_stage1 ex_db ex_fs))
             = Stopped"
    by code_simp
  have n: "run ex_processor (take 2 stop_during_stage1)
             (start 5 5 2 [ex_pdf ''a.pdf''] ex_db ex_fs) \<noteq> None"
    by code_simp
  have "step ex_processor ?ev ?w \<noteq> None" by code_simp
  then obtain w' where s: "step ex_processor ?ev ?w = Some w'" by blast
  have "map stage1_status (map snd (stage1_done (the (step ex_processor ?ev ?w))))
          = [Some Stopped]"
    by code_simp
  then have st: "map stage1_status (map snd (stage1_done w')) = [Some Stopped]"
    using s by simp
  have e: "\<forall>doc e seen. ?ev \<noteq> LlmWorkerFinishes doc e seen" by simp
  note t = stopped_item_file_untouched[of ex_processor "\<lambda>k. k < 2" ex_stage1 ex_db ex_fs
             ?ev ?w w']
  have f: "snd (snd (process_stage2_llm ex_processor (\<lambda>k. k < 2) ex_stage1 ex_db ex_fs)) = ex_fs"
    by (rule mp[OF conjunct1[OF t] a])
  have d: "disk w' = disk ?w"
    by (rule mp[OF conjunct2[OF t]]) (use s e in simp)
  have "\<exists>w'. step ex_processor ?ev ?w = Some w'
            \<and> map stage1_status (map snd (stage1_done w')) = [Some Stopped]
            \<and> disk w' = disk ?w"
    using s st d by (intro exI[of _ w']) simp
  then show ?thesis using a f n by simp
qed

section \<open>Reprocessing a document\<close>



section \<open>Relocation never raises\<close>

text \<open>
  Claim C10. \<open>move_file\<close> always returns: either \<open>None\<close> with the file system as it
  was, or the destination path with the file moved there from its source. It returns
  \<open>None\<close> exactly when creating the directory or the move itself fails (directory
  refused, source missing, source directory refused). The status of a stage-2 result does
  not depend on the file system at all, so a relocation that fails gives the same status as
  one that succeeds.
\<close>

theorem move_file_swallows_errors:
  "(move_file source d filename fs = (None, fs) \<or>
    (\<exists>dest c. move_file source d filename fs =
                 (Some dest, fs\<lparr>files := (files fs)(source := None, dest \<mapsto> c)\<rparr>)
              \<and> parent dest = d \<and> files fs source = Some c))
   \<and> ((fst (move_file source d filename fs) = None) =
        (d \<in> denied fs \<or> files fs source = None \<or> parent source \<in> denied fs))
   \<and> r_status (fst (process_stage2_llm P flag s1 db fs)) =
       r_status (fst (process_stage2_llm P flag s1 db fs2))"
  using move_file_cases[of source d filename fs] move_file_None_iff[of source d filename fs]
    stage2_status_indep[of P flag s1 db fs fs2]
  by blast

end
